theory Spec2Isabelle
  imports Main "HOL-Library.Word" "HOL-Library.Sublist"
begin

section \<open>The source IR, as the lifter reads it\<close>

text \<open>
  The lifter \<^verbatim>\<open>LLVMToTriton\<close> (file \<^verbatim>\<open>src/libtriton/ast/llvm/llvmToTriton.cpp\<close>) reads an
  LLVM module and calls the builders of an expression context. Neither the LLVM classes nor
  the expression context are part of the file; this section models the part of LLVM the
  lifter touches, the next one the builders.
\<close>

text \<open>
  Modelled from the spec: the LLVM type of a value. Only the integer bit width is ever
  read (\<^verbatim>\<open>getIntegerBitWidth\<close>, an \<^verbatim>\<open>unsigned\<close>); every non-integer type is \<open>OtherTy\<close>.
\<close>

datatype llvm_type = IntegerTy "32 word" | OtherTy

text \<open>
  Modelled from the spec: the opcode of an \<^verbatim>\<open>llvm::Instruction\<close>. The opcodes the lifter
  names are constructors; \<open>OtherTerminator k\<close> is any other terminator opcode (branch,
  switch, unreachable, ...) and \<open>OtherOpcode k\<close> any other opcode (load, store, phi,
  floating-point arithmetic, ...), \<open>k\<close> being LLVM's number for it.
\<close>

datatype opcode =
    AShr | Add | And | Call | ICmp | LShr | Mul | Or | Ret | SDiv | SExt | SRem
  | Select | Shl | Sub | Trunc | UDiv | URem | Xor | ZExt
  | OtherTerminator nat | OtherOpcode nat

text \<open>
  Modelled from the spec: the predicate code of a comparison instruction, a value of
  \<^verbatim>\<open>llvm::CmpInst::Predicate\<close>. The ten integer predicates are constructors;
  \<open>OtherPredicate k\<close> is any other value of the enumeration (a floating-point predicate
  or a \<open>BAD\<close> code), \<open>k\<close> being its number.
\<close>

datatype predicate =
    ICMP_EQ | ICMP_NE | ICMP_UGT | ICMP_UGE | ICMP_ULT | ICMP_ULE
  | ICMP_SGT | ICMP_SGE | ICMP_SLT | ICMP_SLE | OtherPredicate nat

text \<open>
  Modelled from the spec: an \<^verbatim>\<open>llvm::Value*\<close>, classified the way the five
  \<^verbatim>\<open>dyn_cast_or_null\<close> of \<^verbatim>\<open>do_convert\<close> classify it.
  \<^item> \<open>NullValue\<close> is the null pointer (every cast of it is null);
  \<^item> \<open>Argument name ty\<close> is an \<^verbatim>\<open>llvm::Argument\<close> with the bytes of its name;
  \<^item> \<open>ConstantInt w v\<close> is an \<^verbatim>\<open>llvm::ConstantInt\<close> of bit width \<open>w\<close> whose stored
    arbitrary-precision value, read unsigned, is \<open>v\<close>;
  \<^item> \<open>CallInst callee args ty\<close> is an \<^verbatim>\<open>llvm::CallInst\<close> (an instruction) with the
    arguments \<open>args\<close>; \<open>callee\<close> is what \<^verbatim>\<open>getCalledFunction()\<close> gives: \<open>Some name\<close>
    for a direct call of the function \<open>name\<close>, \<open>None\<close> (the null pointer) for an
    indirect call, one through a function pointer;
  \<^item> \<open>ICmpInst p ops ty\<close> is an \<^verbatim>\<open>llvm::ICmpInst\<close> (an instruction of opcode \<open>ICmp\<close>);
  \<^item> \<open>Instruction opc ops ty\<close> is any other \<^verbatim>\<open>llvm::Instruction\<close>;
  \<^item> \<open>OtherValue ty\<close> is any other value (a function, a floating-point constant, ...).
\<close>

datatype llvm_value =
    NullValue
  | Argument string llvm_type
  | ConstantInt "32 word" nat
  | CallInst "string option" "llvm_value list" llvm_type
  | ICmpInst predicate "llvm_value list" llvm_type
  | Instruction opcode "llvm_value list" llvm_type
  | OtherValue llvm_type

text \<open>
  What the lifter raises. \<open>AstLifting\<close> is \<^verbatim>\<open>triton::exceptions::AstLifting\<close>, the
  translation failure. \<open>ContextError\<close> is an exception raised inside the expression
  context and passed through. \<open>Crash\<close> is a step the C++ leaves undefined (a null
  pointer dereferenced, an operand index out of range, the bit width of a non-integer
  type): no exception, no result.
\<close>

datatype error = AstLifting string | ContextError string | Crash string

definition throw :: "string \<Rightarrow> error + 'a" where
  "throw msg = Inl (AstLifting msg)"

definition bindE :: "error + 'a \<Rightarrow> ('a \<Rightarrow> error + 'b) \<Rightarrow> error + 'b" where
  "bindE m f = (case m of Inl e \<Rightarrow> Inl e | Inr x \<Rightarrow> f x)"

text \<open>
  \<^verbatim>\<open>getOperand(i)\<close> on an operand list. LLVM asserts that the index is in range; the
  instructions LLVM builds have the operands their opcode needs.
\<close>

definition getOperand :: "llvm_value list \<Rightarrow> nat \<Rightarrow> error + llvm_value" where
  "getOperand ops i =
     (if i < length ops then Inr (ops ! i) else Inl (Crash ''getOperand out of range''))"

text \<open>
  The operand list of a call: LLVM stores the arguments first and the called function
  last, so operand 0 of a call without arguments is the callee itself.
\<close>

definition call_operands :: "llvm_value list \<Rightarrow> llvm_value list" where
  "call_operands args = args @ [OtherValue OtherTy]"

text \<open>
  \<^verbatim>\<open>call->getCalledFunction()->getName()\<close>: the name is read through the pointer with no
  check, so it is undefined for an indirect call.
\<close>

definition getCalledFunction_getName :: "string option \<Rightarrow> error + string" where
  "getCalledFunction_getName callee =
     (case callee of None \<Rightarrow> Inl (Crash ''null dereference'') | Some name \<Rightarrow> Inr name)"

fun getType :: "llvm_value \<Rightarrow> error + llvm_type" where
  "getType NullValue = Inl (Crash ''null dereference'')"
| "getType (Argument name ty) = Inr ty"
| "getType (ConstantInt w v) = Inr (IntegerTy w)"
| "getType (CallInst callee args ty) = Inr ty"
| "getType (ICmpInst p ops ty) = Inr ty"
| "getType (Instruction opc ops ty) = Inr ty"
| "getType (OtherValue ty) = Inr ty"

text \<open>\<^verbatim>\<open>getIntegerBitWidth()\<close> casts to an integer type; LLVM asserts the cast.\<close>

fun getIntegerBitWidth :: "llvm_type \<Rightarrow> error + 32 word" where
  "getIntegerBitWidth (IntegerTy w) = Inr w"
| "getIntegerBitWidth OtherTy = Inl (Crash ''not an integer type'')"

text \<open>
  \<^verbatim>\<open>ConstantInt::getLimitedValue()\<close> with its default limit \<^verbatim>\<open>~0ULL\<close>: the stored value
  when it is at most the limit, the limit otherwise. The result is a \<^verbatim>\<open>uint64_t\<close>.
\<close>

definition getLimitedValue :: "nat \<Rightarrow> nat" where
  "getLimitedValue v = (if v > 2 ^ 64 - 1 then 2 ^ 64 - 1 else v)"

text \<open>
  \<^verbatim>\<open>getName().data()\<close> passed where a \<^verbatim>\<open>std::string\<close> is expected: the bytes of the name
  read as a C string, up to the first NUL.
\<close>

definition data_c_str :: "string \<Rightarrow> string" where
  "data_c_str name = takeWhile (\<lambda>c. c \<noteq> CHR 0x00) name"

text \<open>
  \<^verbatim>\<open>std::string::find(needle)\<close>, from position \<open>pos\<close>: the first position where the needle
  starts, \<open>None\<close> for \<^verbatim>\<open>npos\<close>.
\<close>

fun find_from :: "string \<Rightarrow> string \<Rightarrow> nat \<Rightarrow> nat option" where
  "find_from [] needle pos = (if needle = [] then Some pos else None)"
| "find_from (c # cs) needle pos =
     (if prefix needle (c # cs) then Some pos else find_from cs needle (Suc pos))"

definition find_str :: "string \<Rightarrow> string \<Rightarrow> nat option" where
  "find_str s needle = find_from s needle 0"

section \<open>The expression context\<close>

text \<open>
  A \<^verbatim>\<open>SharedAbstractNode\<close> is a shared pointer to a node: \<open>None\<close> is \<^verbatim>\<open>nullptr\<close>.
\<close>

type_synonym 'n SharedAbstractNode = "'n option"

text \<open>
  Modelled from the spec: the Expression Context (\<^verbatim>\<open>this->actx\<close>), which is not part of
  the lifter's file. It is a parameter: one field for each builder the lifter calls, over
  an arbitrary type \<open>'n\<close> of nodes. A builder receives the pointers it is given and returns
  a pointer or raises; \<open>isLogical\<close> is the per-node query. The two constants \<open>bvtrue\<close>
  and \<open>bvfalse\<close> take no argument and are values. Whatever the context interns or
  caches is its own concern: a builder is a function of its arguments. The names \<open>equal\<close>, \<open>distinct\<close> and
  \<open>extract\<close> carry the suffix \<open>_n\<close>, the plain names being constants of HOL.
\<close>

record 'n AstContext =
  bswap :: "'n SharedAbstractNode \<Rightarrow> error + 'n SharedAbstractNode"
  bv :: "nat \<Rightarrow> 32 word \<Rightarrow> error + 'n SharedAbstractNode"
  bvadd :: "'n SharedAbstractNode \<Rightarrow> 'n SharedAbstractNode \<Rightarrow> error + 'n SharedAbstractNode"
  bvand :: "'n SharedAbstractNode \<Rightarrow> 'n SharedAbstractNode \<Rightarrow> error + 'n SharedAbstractNode"
  bvashr :: "'n SharedAbstractNode \<Rightarrow> 'n SharedAbstractNode \<Rightarrow> error + 'n SharedAbstractNode"
  bvfalse :: "'n SharedAbstractNode"
  bvlshr :: "'n SharedAbstractNode \<Rightarrow> 'n SharedAbstractNode \<Rightarrow> error + 'n SharedAbstractNode"
  bvmul :: "'n SharedAbstractNode \<Rightarrow> 'n SharedAbstractNode \<Rightarrow> error + 'n SharedAbstractNode"
  bvor :: "'n SharedAbstractNode \<Rightarrow> 'n SharedAbstractNode \<Rightarrow> error + 'n SharedAbstractNode"
  bvsdiv :: "'n SharedAbstractNode \<Rightarrow> 'n SharedAbstractNode \<Rightarrow> error + 'n SharedAbstractNode"
  bvsge :: "'n SharedAbstractNode \<Rightarrow> 'n SharedAbstractNode \<Rightarrow> error + 'n SharedAbstractNode"
  bvsgt :: "'n SharedAbstractNode \<Rightarrow> 'n SharedAbstractNode \<Rightarrow> error + 'n SharedAbstractNode"
  bvshl :: "'n SharedAbstractNode \<Rightarrow> 'n SharedAbstractNode \<Rightarrow> error + 'n SharedAbstractNode"
  bvsle :: "'n SharedAbstractNode \<Rightarrow> 'n SharedAbstractNode \<Rightarrow> error + 'n SharedAbstractNode"
  bvslt :: "'n SharedAbstractNode \<Rightarrow> 'n SharedAbstractNode \<Rightarrow> error + 'n SharedAbstractNode"
  bvsrem :: "'n SharedAbstractNode \<Rightarrow> 'n SharedAbstractNode \<Rightarrow> error + 'n SharedAbstractNode"
  bvsub :: "'n SharedAbstractNode \<Rightarrow> 'n SharedAbstractNode \<Rightarrow> error + 'n SharedAbstractNode"
  bvtrue :: "'n SharedAbstractNode"
  bvudiv :: "'n SharedAbstractNode \<Rightarrow> 'n SharedAbstractNode \<Rightarrow> error + 'n SharedAbstractNode"
  bvuge :: "'n SharedAbstractNode \<Rightarrow> 'n SharedAbstractNode \<Rightarrow> error + 'n SharedAbstractNode"
  bvugt :: "'n SharedAbstractNode \<Rightarrow> 'n SharedAbstractNode \<Rightarrow> error + 'n SharedAbstractNode"
  bvule :: "'n SharedAbstractNode \<Rightarrow> 'n SharedAbstractNode \<Rightarrow> error + 'n SharedAbstractNode"
  bvult :: "'n SharedAbstractNode \<Rightarrow> 'n SharedAbstractNode \<Rightarrow> error + 'n SharedAbstractNode"
  bvurem :: "'n SharedAbstractNode \<Rightarrow> 'n SharedAbstractNode \<Rightarrow> error + 'n SharedAbstractNode"
  bvxor :: "'n SharedAbstractNode \<Rightarrow> 'n SharedAbstractNode \<Rightarrow> error + 'n SharedAbstractNode"
  distinct_n :: "'n SharedAbstractNode \<Rightarrow> 'n SharedAbstractNode \<Rightarrow> error + 'n SharedAbstractNode"
  equal_n :: "'n SharedAbstractNode \<Rightarrow> 'n SharedAbstractNode \<Rightarrow> error + 'n SharedAbstractNode"
  extract_n :: "32 word \<Rightarrow> 32 word \<Rightarrow> 'n SharedAbstractNode \<Rightarrow> error + 'n SharedAbstractNode"
  getVariableNode :: "string \<Rightarrow> error + 'n SharedAbstractNode"
  ite :: "'n SharedAbstractNode \<Rightarrow> 'n SharedAbstractNode \<Rightarrow> 'n SharedAbstractNode
            \<Rightarrow> error + 'n SharedAbstractNode"
  land :: "'n SharedAbstractNode \<Rightarrow> 'n SharedAbstractNode \<Rightarrow> error + 'n SharedAbstractNode"
  lor :: "'n SharedAbstractNode \<Rightarrow> 'n SharedAbstractNode \<Rightarrow> error + 'n SharedAbstractNode"
  lxor :: "'n SharedAbstractNode \<Rightarrow> 'n SharedAbstractNode \<Rightarrow> error + 'n SharedAbstractNode"
  sx :: "32 word \<Rightarrow> 'n SharedAbstractNode \<Rightarrow> error + 'n SharedAbstractNode"
  zx :: "32 word \<Rightarrow> 'n SharedAbstractNode \<Rightarrow> error + 'n SharedAbstractNode"
  isLogical :: "'n \<Rightarrow> bool"

text \<open>\<^verbatim>\<open>p->isLogical()\<close>: the query through the pointer, undefined on \<^verbatim>\<open>nullptr\<close>.\<close>

definition deref_isLogical :: "'n AstContext \<Rightarrow> 'n SharedAbstractNode \<Rightarrow> error + bool" where
  "deref_isLogical actx p =
     (case p of None \<Rightarrow> Inl (Crash ''null dereference'') | Some n \<Rightarrow> Inr (isLogical actx n))"

text \<open>
  The test \<^verbatim>\<open>LHS->isLogical() && RHS->isLogical()\<close>: the right operand is only looked at
  when the left one is logical.
\<close>

definition both_isLogical ::
  "'n AstContext \<Rightarrow> 'n SharedAbstractNode \<Rightarrow> 'n SharedAbstractNode \<Rightarrow> error + bool" where
  "both_isLogical actx LHS RHS =
     bindE (deref_isLogical actx LHS) (\<lambda>l. if l then deref_isLogical actx RHS else Inr False)"

section \<open>The lifter\<close>

lemma bindE_cong [fundef_cong]:
  "m = m' \<Longrightarrow> (\<And>x. m' = Inr x \<Longrightarrow> f x = f' x) \<Longrightarrow> bindE m f = bindE m' f'"
  by (cases m') (simp_all add: bindE_def)

lemma nth_size_le:
  "i < length (xs :: llvm_value list) \<Longrightarrow> size (xs ! i) \<le> size_list size xs"
  using size_list_estimation' [of "xs ! i" xs "size (xs ! i)" size] by simp

lemma getOperand_size:
  "getOperand ops i = Inr v \<Longrightarrow> size v < Suc (size_list size ops)"
  by (auto simp: getOperand_def less_Suc_eq_le nth_size_le split: if_splits)

lemma getOperand_call_size:
  "getOperand (call_operands args) i = Inr v \<Longrightarrow> size v < Suc (size_list size args)"
  by (auto simp: getOperand_def call_operands_def nth_append less_Suc_eq_le nth_size_le
      split: if_splits)

text \<open>
  \<^verbatim>\<open>LLVMToTriton::do_convert\<close>. One equation for each class of value, the instruction's
  \<^verbatim>\<open>switch\<close> as a case on the opcode, each statement of a branch as one \<open>bindE\<close>, in the
  order of the source. The call branch reads the callee's name before anything else. In
  the \<open>ICmp\<close> branch a predicate outside the ten cases leaves the
  inner \<^verbatim>\<open>switch\<close> by \<^verbatim>\<open>break\<close> and reaches \<^verbatim>\<open>return node\<close> with \<^verbatim>\<open>node\<close> still
  \<^verbatim>\<open>nullptr\<close>; the \<^verbatim>\<open>throw\<close> after it is reached only when the instruction of opcode
  \<open>ICmp\<close> is not an \<^verbatim>\<open>ICmpInst\<close>.
\<close>

function do_convert :: "'n AstContext \<Rightarrow> llvm_value \<Rightarrow> error + 'n SharedAbstractNode" where
  "do_convert actx (CallInst callee args ty) =
     bindE (getCalledFunction_getName callee) (\<lambda>name.
       if find_str name ''llvm.bswap.i'' \<noteq> None
       then bindE (getOperand (call_operands args) 0) (\<lambda>op0.
            bindE (do_convert actx op0) (\<lambda>node. bswap actx node))
       else throw ''LLVMToTriton::do_convert(): LLVM call not supported'')"
| "do_convert actx (ICmpInst p ops ty) =
     bindE (getOperand ops 0) (\<lambda>op0. bindE (do_convert actx op0) (\<lambda>LHS.
     bindE (getOperand ops 1) (\<lambda>op1. bindE (do_convert actx op1) (\<lambda>RHS.
       (case p of
          ICMP_EQ \<Rightarrow> equal_n actx LHS RHS
        | ICMP_NE \<Rightarrow> distinct_n actx LHS RHS
        | ICMP_UGE \<Rightarrow> bvuge actx LHS RHS
        | ICMP_UGT \<Rightarrow> bvugt actx LHS RHS
        | ICMP_ULE \<Rightarrow> bvule actx LHS RHS
        | ICMP_ULT \<Rightarrow> bvult actx LHS RHS
        | ICMP_SGE \<Rightarrow> bvsge actx LHS RHS
        | ICMP_SGT \<Rightarrow> bvsgt actx LHS RHS
        | ICMP_SLE \<Rightarrow> bvsle actx LHS RHS
        | ICMP_SLT \<Rightarrow> bvslt actx LHS RHS
        | OtherPredicate k \<Rightarrow> Inr None)))))"
| "do_convert actx (Instruction opc ops ty) =
     (case opc of
        AShr \<Rightarrow>
          bindE (getOperand ops 0) (\<lambda>op0. bindE (do_convert actx op0) (\<lambda>LHS.
          bindE (getOperand ops 1) (\<lambda>op1. bindE (do_convert actx op1) (\<lambda>RHS.
            bvashr actx LHS RHS))))
      | Add \<Rightarrow>
          bindE (getOperand ops 0) (\<lambda>op0. bindE (do_convert actx op0) (\<lambda>LHS.
          bindE (getOperand ops 1) (\<lambda>op1. bindE (do_convert actx op1) (\<lambda>RHS.
            bvadd actx LHS RHS))))
      | And \<Rightarrow>
          bindE (getOperand ops 0) (\<lambda>op0. bindE (do_convert actx op0) (\<lambda>LHS.
          bindE (getOperand ops 1) (\<lambda>op1. bindE (do_convert actx op1) (\<lambda>RHS.
            bindE (both_isLogical actx LHS RHS) (\<lambda>logical.
              if logical
              then bindE (land actx LHS RHS) (\<lambda>c. ite actx c (bvtrue actx) (bvfalse actx))
              else bvand actx LHS RHS)))))
      | ICmp \<Rightarrow>
          bindE (getOperand ops 0) (\<lambda>op0. bindE (do_convert actx op0) (\<lambda>LHS.
          bindE (getOperand ops 1) (\<lambda>op1. bindE (do_convert actx op1) (\<lambda>RHS.
            throw ''LLVMToTriton::do_convert(): ICmpInst not supported''))))
      | LShr \<Rightarrow>
          bindE (getOperand ops 0) (\<lambda>op0. bindE (do_convert actx op0) (\<lambda>LHS.
          bindE (getOperand ops 1) (\<lambda>op1. bindE (do_convert actx op1) (\<lambda>RHS.
            bvlshr actx LHS RHS))))
      | Mul \<Rightarrow>
          bindE (getOperand ops 0) (\<lambda>op0. bindE (do_convert actx op0) (\<lambda>LHS.
          bindE (getOperand ops 1) (\<lambda>op1. bindE (do_convert actx op1) (\<lambda>RHS.
            bvmul actx LHS RHS))))
      | Or \<Rightarrow>
          bindE (getOperand ops 0) (\<lambda>op0. bindE (do_convert actx op0) (\<lambda>LHS.
          bindE (getOperand ops 1) (\<lambda>op1. bindE (do_convert actx op1) (\<lambda>RHS.
            bindE (both_isLogical actx LHS RHS) (\<lambda>logical.
              if logical
              then bindE (lor actx LHS RHS) (\<lambda>c. ite actx c (bvtrue actx) (bvfalse actx))
              else bvor actx LHS RHS)))))
      | Ret \<Rightarrow>
          bindE (getOperand ops 0) (\<lambda>op0. do_convert actx op0)
      | SDiv \<Rightarrow>
          bindE (getOperand ops 0) (\<lambda>op0. bindE (do_convert actx op0) (\<lambda>LHS.
          bindE (getOperand ops 1) (\<lambda>op1. bindE (do_convert actx op1) (\<lambda>RHS.
            bvsdiv actx LHS RHS))))
      | SExt \<Rightarrow>
          bindE (getIntegerBitWidth ty) (\<lambda>size'.
          bindE (getOperand ops 0) (\<lambda>op0. bindE (do_convert actx op0) (\<lambda>node.
          bindE (getType op0) (\<lambda>ty0. bindE (getIntegerBitWidth ty0) (\<lambda>csze.
            sx actx (size' - csze) node)))))
      | SRem \<Rightarrow>
          bindE (getOperand ops 0) (\<lambda>op0. bindE (do_convert actx op0) (\<lambda>LHS.
          bindE (getOperand ops 1) (\<lambda>op1. bindE (do_convert actx op1) (\<lambda>RHS.
            bvsrem actx LHS RHS))))
      | Select \<Rightarrow>
          bindE (getOperand ops 0) (\<lambda>op0. bindE (do_convert actx op0) (\<lambda>nif.
          bindE (getOperand ops 1) (\<lambda>op1. bindE (do_convert actx op1) (\<lambda>nthen.
          bindE (getOperand ops 2) (\<lambda>op2. bindE (do_convert actx op2) (\<lambda>nelse.
          bindE (deref_isLogical actx nif) (\<lambda>logical.
            if logical = False
            then bindE (equal_n actx nif (bvtrue actx)) (\<lambda>nif'. ite actx nif' nthen nelse)
            else ite actx nif nthen nelse)))))))
      | Shl \<Rightarrow>
          bindE (getOperand ops 0) (\<lambda>op0. bindE (do_convert actx op0) (\<lambda>LHS.
          bindE (getOperand ops 1) (\<lambda>op1. bindE (do_convert actx op1) (\<lambda>RHS.
            bvshl actx LHS RHS))))
      | Sub \<Rightarrow>
          bindE (getOperand ops 0) (\<lambda>op0. bindE (do_convert actx op0) (\<lambda>LHS.
          bindE (getOperand ops 1) (\<lambda>op1. bindE (do_convert actx op1) (\<lambda>RHS.
            bvsub actx LHS RHS))))
      | Trunc \<Rightarrow>
          bindE (getIntegerBitWidth ty) (\<lambda>size'.
          bindE (getOperand ops 0) (\<lambda>op0. bindE (do_convert actx op0) (\<lambda>node.
            extract_n actx (size' - 1) 0 node)))
      | UDiv \<Rightarrow>
          bindE (getOperand ops 0) (\<lambda>op0. bindE (do_convert actx op0) (\<lambda>LHS.
          bindE (getOperand ops 1) (\<lambda>op1. bindE (do_convert actx op1) (\<lambda>RHS.
            bvudiv actx LHS RHS))))
      | URem \<Rightarrow>
          bindE (getOperand ops 0) (\<lambda>op0. bindE (do_convert actx op0) (\<lambda>LHS.
          bindE (getOperand ops 1) (\<lambda>op1. bindE (do_convert actx op1) (\<lambda>RHS.
            bvurem actx LHS RHS))))
      | Xor \<Rightarrow>
          bindE (getOperand ops 0) (\<lambda>op0. bindE (do_convert actx op0) (\<lambda>LHS.
          bindE (getOperand ops 1) (\<lambda>op1. bindE (do_convert actx op1) (\<lambda>RHS.
            bindE (both_isLogical actx LHS RHS) (\<lambda>logical.
              if logical
              then bindE (lxor actx LHS RHS) (\<lambda>c. ite actx c (bvtrue actx) (bvfalse actx))
              else bvxor actx LHS RHS)))))
      | ZExt \<Rightarrow>
          bindE (getIntegerBitWidth ty) (\<lambda>size'.
          bindE (getOperand ops 0) (\<lambda>op0. bindE (do_convert actx op0) (\<lambda>node.
          bindE (getType op0) (\<lambda>ty0. bindE (getIntegerBitWidth ty0) (\<lambda>csze.
            zx actx (size' - csze) node)))))
      | _ \<Rightarrow> throw ''LLVMToTriton::do_convert(): LLVM instruction not supported'')"
| "do_convert actx (ConstantInt w v) = bv actx (getLimitedValue v) w"
| "do_convert actx (Argument name ty) = getVariableNode actx (data_c_str name)"
| "do_convert actx (OtherValue ty) =
     throw ''LLVMToTriton::do_convert(): LLVM instruction not supported''"
| "do_convert actx NullValue =
     throw ''LLVMToTriton::do_convert(): LLVM instruction not supported''"
  by pat_completeness auto
termination
  by (relation "measure (\<lambda>(actx, v). size v)")
     (auto dest: getOperand_size getOperand_call_size)


section \<open>The entry point\<close>

text \<open>
  Modelled from the spec: the module as the lifter queries it. A module is the list of its
  functions, a function the list of its basic blocks, a block the list of its instructions.
  \<^verbatim>\<open>getFunction\<close> is null when no function has the name; \<^verbatim>\<open>getEntryBlock\<close> is the first
  block, undefined for a function without blocks; \<^verbatim>\<open>getTerminator\<close> is the last
  instruction when it is a terminator and null otherwise.
\<close>

datatype basic_block = BasicBlock (instructions: "llvm_value list")

datatype llvm_function = Function (getName: string) (blocks: "basic_block list")

type_synonym llvm_module = "llvm_function list"

definition getFunction :: "llvm_module \<Rightarrow> string \<Rightarrow> llvm_function option" where
  "getFunction llvmModule fname = List.find (\<lambda>f. getName f = fname) llvmModule"

definition getEntryBlock :: "llvm_function \<Rightarrow> error + basic_block" where
  "getEntryBlock f =
     (case blocks f of [] \<Rightarrow> Inl (Crash ''getEntryBlock of an empty function'')
      | b # bs \<Rightarrow> Inr b)"

fun isTerminator :: "llvm_value \<Rightarrow> bool" where
  "isTerminator (Instruction Ret ops ty) = True"
| "isTerminator (Instruction (OtherTerminator k) ops ty) = True"
| "isTerminator v = False"

definition getTerminator :: "basic_block \<Rightarrow> llvm_value" where
  "getTerminator bb =
     (if instructions bb = [] \<or> \<not> isTerminator (last (instructions bb)) then NullValue
      else last (instructions bb))"

text \<open>\<^verbatim>\<open>LLVMToTriton::convert\<close>.\<close>

definition convert :: "'n AstContext \<Rightarrow> llvm_module \<Rightarrow> string \<Rightarrow> error + 'n SharedAbstractNode" where
  "convert actx llvmModule fname =
     (case getFunction llvmModule fname of
        None \<Rightarrow>
          throw ''LLVMToTriton::convert(): llvm::Module doesn't contain the given function name''
      | Some function \<Rightarrow>
          bindE (getEntryBlock function) (\<lambda>entryBlock.
            do_convert actx (getTerminator entryBlock)))"

section \<open>A symbolic expression context\<close>

text \<open>
  Modelled from the spec: an instance of the Expression Context, used to run the lifter on
  concrete inputs. A node records the builder that made it and its children; widths and
  literal values are integer children. A builder dereferences the pointers it is given.
  The nodes tagged logical are the comparisons, equality, distinctness and the three
  logical connectives, and a conditional whose branches are logical. The symbol table is
  the list \<open>vars\<close> of the registered variable names.
\<close>

datatype node = IntegerNode nat | VariableNode string | Node string "node list"

definition node_of :: "string \<Rightarrow> node list \<Rightarrow> node SharedAbstractNode \<Rightarrow> error + node SharedAbstractNode" where
  "node_of kind pre p =
     (case p of None \<Rightarrow> Inl (Crash ''null dereference'')
      | Some a \<Rightarrow> Inr (Some (Node kind (pre @ [a]))))"

definition node1 :: "string \<Rightarrow> node SharedAbstractNode \<Rightarrow> error + node SharedAbstractNode" where
  "node1 kind p = node_of kind [] p"

definition node2 ::
  "string \<Rightarrow> node SharedAbstractNode \<Rightarrow> node SharedAbstractNode \<Rightarrow> error + node SharedAbstractNode" where
  "node2 kind p q =
     (case p of None \<Rightarrow> Inl (Crash ''null dereference'') | Some a \<Rightarrow> node_of kind [a] q)"

definition node3 ::
  "string \<Rightarrow> node SharedAbstractNode \<Rightarrow> node SharedAbstractNode \<Rightarrow> node SharedAbstractNode
     \<Rightarrow> error + node SharedAbstractNode" where
  "node3 kind p q r =
     (case p of None \<Rightarrow> Inl (Crash ''null dereference'')
      | Some a \<Rightarrow>
          (case q of None \<Rightarrow> Inl (Crash ''null dereference'') | Some b \<Rightarrow> node_of kind [a, b] r))"

fun node_isLogical :: "node \<Rightarrow> bool" where
  "node_isLogical (Node kind cs) =
     (if kind = ''ite'' then (case cs of [c, t, e] \<Rightarrow> node_isLogical t | _ \<Rightarrow> False)
      else kind \<in> set [''equal'', ''distinct'', ''bvuge'', ''bvugt'', ''bvule'', ''bvult'',
             ''bvsge'', ''bvsgt'', ''bvsle'', ''bvslt'', ''land'', ''lor'', ''lxor''])"
| "node_isLogical n = False"

definition symbolic :: "string list \<Rightarrow> node AstContext" where
  "symbolic vars = \<lparr>
     bswap = node1 ''bswap'',
     bv = (\<lambda>v w. Inr (Some (Node ''bv'' [IntegerNode v, IntegerNode (unat w)]))),
     bvadd = node2 ''bvadd'',
     bvand = node2 ''bvand'',
     bvashr = node2 ''bvashr'',
     bvfalse = Some (Node ''bv'' [IntegerNode 0, IntegerNode 1]),
     bvlshr = node2 ''bvlshr'',
     bvmul = node2 ''bvmul'',
     bvor = node2 ''bvor'',
     bvsdiv = node2 ''bvsdiv'',
     bvsge = node2 ''bvsge'',
     bvsgt = node2 ''bvsgt'',
     bvshl = node2 ''bvshl'',
     bvsle = node2 ''bvsle'',
     bvslt = node2 ''bvslt'',
     bvsrem = node2 ''bvsrem'',
     bvsub = node2 ''bvsub'',
     bvtrue = Some (Node ''bv'' [IntegerNode 1, IntegerNode 1]),
     bvudiv = node2 ''bvudiv'',
     bvuge = node2 ''bvuge'',
     bvugt = node2 ''bvugt'',
     bvule = node2 ''bvule'',
     bvult = node2 ''bvult'',
     bvurem = node2 ''bvurem'',
     bvxor = node2 ''bvxor'',
     distinct_n = node2 ''distinct'',
     equal_n = node2 ''equal'',
     extract_n = (\<lambda>high low. node_of ''extract'' [IntegerNode (unat high), IntegerNode (unat low)]),
     getVariableNode = (\<lambda>name. if name \<in> set vars then Inr (Some (VariableNode name))
        else Inl (ContextError ''variable does not exist'')),
     ite = node3 ''ite'',
     land = node2 ''land'',
     lor = node2 ''lor'',
     lxor = node2 ''lxor'',
     sx = (\<lambda>sizeExt. node_of ''sx'' [IntegerNode (unat sizeExt)]),
     zx = (\<lambda>sizeExt. node_of ''zx'' [IntegerNode (unat sizeExt)]),
     isLogical = node_isLogical \<rparr>"


section \<open>The vocabulary of the specification\<close>

text \<open>
  The tables below follow the words of the specification, not the code: which builder
  "matches" which opcode or predicate, and which values count as supported. The theorems
  compare the lifter with them.
\<close>

type_synonym 'n builder2 =
  "'n AstContext \<Rightarrow> 'n SharedAbstractNode \<Rightarrow> 'n SharedAbstractNode \<Rightarrow> error + 'n SharedAbstractNode"

text \<open>The binary bitvector builder matching an arithmetic or shift opcode.\<close>

definition arith_builder :: "opcode \<Rightarrow> 'n builder2 option" where
  "arith_builder opc =
     (case opc of
        Add \<Rightarrow> Some bvadd | Sub \<Rightarrow> Some bvsub | Mul \<Rightarrow> Some bvmul
      | SDiv \<Rightarrow> Some bvsdiv | UDiv \<Rightarrow> Some bvudiv
      | SRem \<Rightarrow> Some bvsrem | URem \<Rightarrow> Some bvurem
      | LShr \<Rightarrow> Some bvlshr | AShr \<Rightarrow> Some bvashr | Shl \<Rightarrow> Some bvshl
      | _ \<Rightarrow> None)"

text \<open>The logical and the bitwise connective matching AND, OR and XOR.\<close>

definition connective_builders :: "opcode \<Rightarrow> ('n builder2 \<times> 'n builder2) option" where
  "connective_builders opc =
     (case opc of
        And \<Rightarrow> Some (land, bvand) | Or \<Rightarrow> Some (lor, bvor) | Xor \<Rightarrow> Some (lxor, bvxor)
      | _ \<Rightarrow> None)"

text \<open>The builder matching each of the ten recognised predicates.\<close>

definition predicate_builder :: "predicate \<Rightarrow> 'n builder2 option" where
  "predicate_builder p =
     (case p of
        ICMP_EQ \<Rightarrow> Some equal_n | ICMP_NE \<Rightarrow> Some distinct_n
      | ICMP_UGE \<Rightarrow> Some bvuge | ICMP_UGT \<Rightarrow> Some bvugt
      | ICMP_ULE \<Rightarrow> Some bvule | ICMP_ULT \<Rightarrow> Some bvult
      | ICMP_SGE \<Rightarrow> Some bvsge | ICMP_SGT \<Rightarrow> Some bvsgt
      | ICMP_SLE \<Rightarrow> Some bvsle | ICMP_SLT \<Rightarrow> Some bvslt
      | OtherPredicate k \<Rightarrow> None)"

text \<open>The classes of a value, and the opcode of an instruction.\<close>

fun isa_Argument :: "llvm_value \<Rightarrow> bool" where
  "isa_Argument (Argument name ty) = True"
| "isa_Argument v = False"

fun isa_ConstantInt :: "llvm_value \<Rightarrow> bool" where
  "isa_ConstantInt (ConstantInt w v) = True"
| "isa_ConstantInt v = False"

fun getOpcode :: "llvm_value \<Rightarrow> opcode option" where
  "getOpcode (CallInst callee args ty) = Some Call"
| "getOpcode (ICmpInst p ops ty) = Some ICmp"
| "getOpcode (Instruction opc ops ty) = Some opc"
| "getOpcode v = None"

text \<open>The supported opcodes: the call and the nineteen cases of the \<^verbatim>\<open>switch\<close>.\<close>

definition supported_opcodes :: "opcode set" where
  "supported_opcodes =
     {AShr, Add, And, Call, ICmp, LShr, Mul, Or, Ret, SDiv, SExt, SRem, Select, Shl, Sub,
      Trunc, UDiv, URem, Xor, ZExt}"

definition supported_instruction :: "llvm_value \<Rightarrow> bool" where
  "supported_instruction v =
     (case getOpcode v of None \<Rightarrow> False | Some opc \<Rightarrow> opc \<in> supported_opcodes)"

text \<open>The marker that whitelists a callee.\<close>

definition bswap_marker :: string where
  "bswap_marker = ''llvm.bswap.i''"

text \<open>The failures of the lifter, as values.\<close>

definition not_supported :: "error + 'a" where
  "not_supported = Inl (AstLifting ''LLVMToTriton::do_convert(): LLVM instruction not supported'')"

definition call_not_supported :: "error + 'a" where
  "call_not_supported = Inl (AstLifting ''LLVMToTriton::do_convert(): LLVM call not supported'')"

definition function_not_found :: "error + 'a" where
  "function_not_found =
     Inl (AstLifting
       ''LLVMToTriton::convert(): llvm::Module doesn't contain the given function name'')"

text \<open>
  Inputs used to run the lifter: two arguments, a constant, a load (an unsupported
  instruction), a call of \<open>x\<close> through a function pointer, the 128-bit constant \<open>2 ^ 64\<close>,
  the context that knows the variables \<open>x\<close> and \<open>y\<close>, and a module with
  the single function \<open>f\<close> that returns \<open>x\<close>.
\<close>

definition arg_x :: llvm_value where
  "arg_x = Argument ''x'' (IntegerTy 32)"

definition arg_y :: llvm_value where
  "arg_y = Argument ''y'' (IntegerTy 32)"

definition const_5 :: llvm_value where
  "const_5 = ConstantInt 32 5"

definition load_i32 :: llvm_value where
  "load_i32 = Instruction (OtherOpcode 32) [OtherValue OtherTy] (IntegerTy 32)"

definition indirect_call :: llvm_value where
  "indirect_call = CallInst None [arg_x] (IntegerTy 32)"

definition const_i128 :: llvm_value where
  "const_i128 = ConstantInt 128 (2 ^ 64)"

definition ctx_xy :: "node AstContext" where
  "ctx_xy = symbolic [''x'', ''y'']"

definition module_f :: llvm_module where
  "module_f = [Function ''f'' [BasicBlock [Instruction Ret [arg_x] OtherTy]]]"

section \<open>Basic facts\<close>

lemma bindE_Inr [simp]: "bindE (Inr x) f = f x"
  by (simp add: bindE_def)

lemma bindE_Inl [simp]: "bindE (Inl e) f = Inl e"
  by (simp add: bindE_def)

lemma getOperand_0 [simp]: "getOperand (a # rest) 0 = Inr a"
  by (simp add: getOperand_def)

lemma getOperand_1 [simp]: "getOperand (a # b # rest) (Suc 0) = Inr b"
  by (simp add: getOperand_def)

lemma getOperand_2 [simp]: "getOperand (a # b # c # rest) 2 = Inr c"
  by (simp add: getOperand_def)

lemma getCalledFunction_getName_Some [simp]: "getCalledFunction_getName (Some name) = Inr name"
  by (simp add: getCalledFunction_getName_def)

lemma getOperand_call_0 [simp]: "getOperand (call_operands (a # rest)) 0 = Inr a"
  by (simp add: call_operands_def)

lemma find_from_iff: "find_from s needle pos \<noteq> None \<longleftrightarrow> sublist needle s"
  by (induction s arbitrary: pos) (auto simp: sublist_Cons_right)

text \<open>\<^verbatim>\<open>find(needle) != npos\<close> says that the needle occurs in the string.\<close>

lemma find_str_iff: "find_str s needle \<noteq> None \<longleftrightarrow> sublist needle s"
  using find_from_iff [of s needle 0] by (simp add: find_str_def)

text \<open>The fields of the symbolic context, one equation each.\<close>

lemma symbolic_sel:
  "bswap (symbolic vars) = node1 ''bswap''"
  "bv (symbolic vars) = (\<lambda>v w. Inr (Some (Node ''bv'' [IntegerNode v, IntegerNode (unat w)])))"
  "bvadd (symbolic vars) = node2 ''bvadd''"
  "bvand (symbolic vars) = node2 ''bvand''"
  "bvashr (symbolic vars) = node2 ''bvashr''"
  "bvfalse (symbolic vars) = Some (Node ''bv'' [IntegerNode 0, IntegerNode 1])"
  "bvlshr (symbolic vars) = node2 ''bvlshr''"
  "bvmul (symbolic vars) = node2 ''bvmul''"
  "bvor (symbolic vars) = node2 ''bvor''"
  "bvsdiv (symbolic vars) = node2 ''bvsdiv''"
  "bvsge (symbolic vars) = node2 ''bvsge''"
  "bvsgt (symbolic vars) = node2 ''bvsgt''"
  "bvshl (symbolic vars) = node2 ''bvshl''"
  "bvsle (symbolic vars) = node2 ''bvsle''"
  "bvslt (symbolic vars) = node2 ''bvslt''"
  "bvsrem (symbolic vars) = node2 ''bvsrem''"
  "bvsub (symbolic vars) = node2 ''bvsub''"
  "bvtrue (symbolic vars) = Some (Node ''bv'' [IntegerNode 1, IntegerNode 1])"
  "bvudiv (symbolic vars) = node2 ''bvudiv''"
  "bvuge (symbolic vars) = node2 ''bvuge''"
  "bvugt (symbolic vars) = node2 ''bvugt''"
  "bvule (symbolic vars) = node2 ''bvule''"
  "bvult (symbolic vars) = node2 ''bvult''"
  "bvurem (symbolic vars) = node2 ''bvurem''"
  "bvxor (symbolic vars) = node2 ''bvxor''"
  "distinct_n (symbolic vars) = node2 ''distinct''"
  "equal_n (symbolic vars) = node2 ''equal''"
  "extract_n (symbolic vars) = (\<lambda>high low. node_of ''extract'' [IntegerNode (unat high), IntegerNode (unat low)])"
  "getVariableNode (symbolic vars) = (\<lambda>name. if name \<in> set vars then Inr (Some (VariableNode name))
        else Inl (ContextError ''variable does not exist''))"
  "ite (symbolic vars) = node3 ''ite''"
  "land (symbolic vars) = node2 ''land''"
  "lor (symbolic vars) = node2 ''lor''"
  "lxor (symbolic vars) = node2 ''lxor''"
  "sx (symbolic vars) = (\<lambda>sizeExt. node_of ''sx'' [IntegerNode (unat sizeExt)])"
  "zx (symbolic vars) = (\<lambda>sizeExt. node_of ''zx'' [IntegerNode (unat sizeExt)])"
  "isLogical (symbolic vars) = node_isLogical"
  by (simp_all add: symbolic_def)

lemmas ctx_xy_sel = symbolic_sel [of "[''x'', ''y'']", folded ctx_xy_def]

lemmas node_simps = node1_def node2_def node3_def node_of_def

lemma convert_arg_x [simp]: "do_convert ctx_xy arg_x = Inr (Some (VariableNode ''x''))"
  by (simp add: arg_x_def ctx_xy_sel data_c_str_def)

lemma convert_arg_y [simp]: "do_convert ctx_xy arg_y = Inr (Some (VariableNode ''y''))"
  by (simp add: arg_y_def ctx_xy_sel data_c_str_def)

lemma convert_const_5 [simp]:
  "do_convert ctx_xy const_5 = Inr (Some (Node ''bv'' [IntegerNode 5, IntegerNode 32]))"
  by (simp add: const_5_def ctx_xy_sel getLimitedValue_def)

lemma convert_load_i32 [simp]: "do_convert actx load_i32 = not_supported"
  by (simp add: load_i32_def not_supported_def throw_def)


section \<open>Comparisons\<close>

text \<open>
  Each of the ten recognised predicates is translated by its own builder, applied to the
  translations of operand 0 and operand 1, in this order.
\<close>

lemma icmp_ten_predicates:
  assumes "predicate_builder p = Some build"
  shows "do_convert actx (ICmpInst p (a # b # rest) ty) =
           (case do_convert actx a of
              Inl e \<Rightarrow> Inl e
            | Inr LHS \<Rightarrow>
                (case do_convert actx b of
                   Inl e \<Rightarrow> Inl e
                 | Inr RHS \<Rightarrow> build actx LHS RHS))"
  using assms
  by (cases p) (auto simp: predicate_builder_def bindE_def split: sum.splits)

text \<open>
  The ten builders are distinct: in the symbolic context two different recognised
  predicates never build the same node.
\<close>

lemma predicate_builders_distinct:
  assumes "predicate_builder p = Some f" and "predicate_builder q = Some g" and "p \<noteq> q"
  shows "f ctx_xy (Some l) (Some r) \<noteq> g ctx_xy (Some l) (Some r)"
  using assms
  by (cases p; cases q) (simp_all add: predicate_builder_def ctx_xy_sel node_simps)

text \<open>
  For any other predicate code the inner \<^verbatim>\<open>switch\<close> is left by \<^verbatim>\<open>break\<close> and the lifter
  returns the null pointer it initialised \<^verbatim>\<open>node\<close> with: no failure is raised.
\<close>

lemma icmp_other_predicate:
  assumes "do_convert actx a = Inr LHS" and "do_convert actx b = Inr RHS"
  shows "do_convert actx (ICmpInst (OtherPredicate k) (a # b # rest) ty) = Inr None"
  using assms by simp

text \<open>
  Claim C1. The claim says that a comparison whose predicate lies outside the ten raises a
  translation failure. The code does not: on the comparison of \<open>x\<close> with 5 under the
  predicate code 42 (\<^verbatim>\<open>BAD_ICMP_PREDICATE\<close>), which is none of the ten, \<^verbatim>\<open>do_convert\<close>
  returns normally, and what it returns is \<^verbatim>\<open>nullptr\<close>. The \<^verbatim>\<open>throw\<close> that follows in the
  source ("ICmpInst not supported") is not reached.
\<close>

theorem icmp_unknown_predicate_returns_null:
  "(predicate_builder (OtherPredicate 42) :: node builder2 option) = None \<and>
   do_convert ctx_xy (ICmpInst (OtherPredicate 42) [arg_x, const_5] (IntegerTy 1)) = Inr None"
  by (simp add: predicate_builder_def)

section \<open>Constants\<close>

text \<open>
  What the code does with a constant: the literal has the constant's declared width, and
  its value is the stored value, read unsigned, clamped to \<open>2 ^ 64 - 1\<close>.
\<close>

lemma constant_literal:
  "do_convert actx (ConstantInt w v) = bv actx (min v (2 ^ 64 - 1)) w"
  by (simp add: getLimitedValue_def min_def)

text \<open>
  For a constant of width at most 64, whose stored value is below \<open>2\<close> to the power of
  the width, the value is the stored value as it is, with no sign reinterpretation.
\<close>

lemma constant_up_to_64_bits:
  assumes "unat w \<le> 64" and "v < 2 ^ unat w"
  shows "do_convert actx (ConstantInt w v) = bv actx v w"
proof -
  have "(2::nat) ^ unat w \<le> 2 ^ 64"
    using assms(1) by (intro power_increasing) simp_all
  with assms(2) have "v < 2 ^ 64" by simp
  then show ?thesis by (simp add: getLimitedValue_def)
qed

text \<open>
  Claim C2. The claim says that the literal's value is the constant's stored value for
  every declared width, widths above 64 bits included. The code does not do that: the
  128-bit constant \<open>2 ^ 64\<close>, a well-formed value of its type, is translated to the literal
  of width 128 and value \<open>2 ^ 64 - 1\<close>, which is not the literal of the stored value. The
  value is read by \<^verbatim>\<open>getLimitedValue()\<close>, a \<^verbatim>\<open>uint64_t\<close>, while the width is passed on
  in full: the tree built is not equivalent to the constant.
\<close>

theorem constant_wider_than_64_bits_clamped:
  "2 ^ 64 < (2::nat) ^ 128 \<and>
   do_convert ctx_xy const_i128 =
     Inr (Some (Node ''bv'' [IntegerNode (2 ^ 64 - 1), IntegerNode 128])) \<and>
   do_convert ctx_xy const_i128 \<noteq> bv ctx_xy (2 ^ 64) 128"
  by (simp add: const_i128_def ctx_xy_sel getLimitedValue_def)

section \<open>AND, OR, XOR\<close>

text \<open>
  Claim C3. For an AND, OR or XOR instruction whose two operands are translated to the nodes
  \<open>l\<close> and \<open>r\<close>: if both are tagged logical, the result is the conditional between the
  bitvector true and false constants over the matching logical connective of the two
  nodes; otherwise it is the matching bitwise connective of the two nodes.
\<close>

theorem connectives:
  assumes "connective_builders opc = Some (lbuild, bbuild)"
    and "do_convert actx a = Inr (Some l)"
    and "do_convert actx b = Inr (Some r)"
  shows "do_convert actx (Instruction opc (a # b # rest) ty) =
           (if isLogical actx l \<and> isLogical actx r
            then (case lbuild actx (Some l) (Some r) of
                    Inl e \<Rightarrow> Inl e
                  | Inr c \<Rightarrow> ite actx c (bvtrue actx) (bvfalse actx))
            else bbuild actx (Some l) (Some r))"
  using assms
  by (cases opc)
     (auto simp: connective_builders_def both_isLogical_def deref_isLogical_def bindE_def
        split: sum.splits)

text \<open>
  Claim C3 at the AND of two comparisons (both logical) and at the AND of two
  arguments (bitvectors).
\<close>

theorem connectives_witness:
  "do_convert ctx_xy (Instruction And [ICmpInst ICMP_EQ [arg_x, const_5] (IntegerTy 1),
       ICmpInst ICMP_ULT [arg_y, const_5] (IntegerTy 1)] (IntegerTy 1)) =
     Inr (Some (Node ''ite''
       [Node ''land''
          [Node ''equal'' [VariableNode ''x'', Node ''bv'' [IntegerNode 5, IntegerNode 32]],
           Node ''bvult'' [VariableNode ''y'', Node ''bv'' [IntegerNode 5, IntegerNode 32]]],
        Node ''bv'' [IntegerNode 1, IntegerNode 1],
        Node ''bv'' [IntegerNode 0, IntegerNode 1]])) \<and>
   do_convert ctx_xy (Instruction And [arg_x, arg_y] (IntegerTy 32)) =
     Inr (Some (Node ''bvand'' [VariableNode ''x'', VariableNode ''y'']))"
proof -
  let ?five = "Node ''bv'' [IntegerNode 5, IntegerNode 32]"
  have b: "(connective_builders And :: (node builder2 \<times> node builder2) option) = Some (land, bvand)"
    by (simp add: connective_builders_def)
  have l: "do_convert ctx_xy (ICmpInst ICMP_EQ [arg_x, const_5] (IntegerTy 1)) =
      Inr (Some (Node ''equal'' [VariableNode ''x'', ?five]))"
    by (simp add: ctx_xy_sel node_simps)
  have r: "do_convert ctx_xy (ICmpInst ICMP_ULT [arg_y, const_5] (IntegerTy 1)) =
      Inr (Some (Node ''bvult'' [VariableNode ''y'', ?five]))"
    by (simp add: ctx_xy_sel node_simps)
  show ?thesis
    using connectives [OF b l r, of "[]" "IntegerTy 1"]
      connectives [OF b convert_arg_x convert_arg_y, of "[]" "IntegerTy 32"]
    by (simp add: ctx_xy_sel node_simps)
qed

section \<open>Select\<close>

text \<open>
  Claim C4. A select translates its condition, then its then-branch, then its else-branch:
  the first of the three that fails decides the failure. When all three succeed, a
  condition tagged logical is used as it is, any other condition is replaced by its
  equality with the bitvector true constant, and the result is the conditional node over
  the condition and the two translated branches. (The tag is read through the pointer, so
  a null condition is a crash.)
\<close>

theorem select_ternary:
  "do_convert actx (Instruction Select (c # t # e # rest) ty) =
     (case do_convert actx c of
        Inl x \<Rightarrow> Inl x
      | Inr nif \<Rightarrow>
          (case do_convert actx t of
             Inl x \<Rightarrow> Inl x
           | Inr nthen \<Rightarrow>
               (case do_convert actx e of
                  Inl x \<Rightarrow> Inl x
                | Inr nelse \<Rightarrow>
                    (case nif of
                       None \<Rightarrow> Inl (Crash ''null dereference'')
                     | Some n \<Rightarrow>
                         if isLogical actx n then ite actx nif nthen nelse
                         else (case equal_n actx nif (bvtrue actx) of
                                 Inl x \<Rightarrow> Inl x
                               | Inr nif' \<Rightarrow> ite actx nif' nthen nelse)))))"
  by (simp add: deref_isLogical_def bindE_def split: sum.splits option.splits)

text \<open>
  Claim C4 at a select on a constant condition (repaired by the equality), on a comparison
  (used as it is), and on an untranslatable condition (whose failure comes first).
\<close>

theorem select_ternary_witness:
  "do_convert ctx_xy (Instruction Select [ConstantInt 1 1, arg_x, arg_y] (IntegerTy 32)) =
     Inr (Some (Node ''ite''
       [Node ''equal'' [Node ''bv'' [IntegerNode 1, IntegerNode 1],
                        Node ''bv'' [IntegerNode 1, IntegerNode 1]],
        VariableNode ''x'', VariableNode ''y''])) \<and>
   do_convert ctx_xy (Instruction Select [ICmpInst ICMP_SLT [arg_x, arg_y] (IntegerTy 1),
       arg_x, arg_y] (IntegerTy 32)) =
     Inr (Some (Node ''ite''
       [Node ''bvslt'' [VariableNode ''x'', VariableNode ''y''],
        VariableNode ''x'', VariableNode ''y''])) \<and>
   do_convert ctx_xy (Instruction Select [load_i32, NullValue, NullValue] (IntegerTy 32)) =
     not_supported"
proof -
  have c: "do_convert ctx_xy (ConstantInt 1 1) = Inr (Some (Node ''bv'' [IntegerNode 1, IntegerNode 1]))"
    by (simp add: ctx_xy_sel getLimitedValue_def)
  have l: "do_convert ctx_xy (ICmpInst ICMP_SLT [arg_x, arg_y] (IntegerTy 1)) =
      Inr (Some (Node ''bvslt'' [VariableNode ''x'', VariableNode ''y'']))"
    by (simp add: ctx_xy_sel node_simps)
  show ?thesis
    using select_ternary [of ctx_xy "ConstantInt 1 1" arg_x arg_y "[]" "IntegerTy 32"]
      select_ternary [of ctx_xy "ICmpInst ICMP_SLT [arg_x, arg_y] (IntegerTy 1)" arg_x arg_y
        "[]" "IntegerTy 32"]
      select_ternary [of ctx_xy load_i32 NullValue NullValue "[]" "IntegerTy 32"]
    unfolding c l
    by (simp add: ctx_xy_sel node_simps not_supported_def)
qed

section \<open>Extensions and truncation\<close>

text \<open>
  Claim C5. With \<open>W\<close> the width of the result type and \<open>w\<close> the width of the operand's
  type, a sign extension is \<open>sx\<close> and a zero extension is \<open>zx\<close> of the translated
  operand with \<open>W - w\<close> extension bits, and a truncation is the extraction of the bits
  \<open>W - 1\<close> down to \<open>0\<close> of the translated operand. The subtractions are those of
  \<^verbatim>\<open>unsigned\<close>; they are the mathematical differences when \<open>w \<le> W\<close> and \<open>W \<noteq> 0\<close>.
\<close>

theorem width_changing:
  assumes "do_convert actx a = Inr node"
  shows "(getType a = Inr (IntegerTy w) \<longrightarrow>
            do_convert actx (Instruction SExt (a # rest) (IntegerTy W)) = sx actx (W - w) node \<and>
            do_convert actx (Instruction ZExt (a # rest) (IntegerTy W)) = zx actx (W - w) node \<and>
            (w \<le> W \<longrightarrow> unat (W - w) = unat W - unat w)) \<and>
         do_convert actx (Instruction Trunc (a # rest) (IntegerTy W)) =
            extract_n actx (W - 1) 0 node \<and>
         (W \<noteq> 0 \<longrightarrow> unat (W - 1) = unat W - 1)"
  using assms by (simp add: unat_sub unat_minus_one)

text \<open>
  Claim C5 at the extensions of a 32-bit argument to 64 bits (32 extension bits) and at
  its truncation to 8 bits (bits 7 to 0).
\<close>

theorem width_changing_witness:
  "do_convert ctx_xy (Instruction SExt [arg_x] (IntegerTy 64)) =
     Inr (Some (Node ''sx'' [IntegerNode 32, VariableNode ''x''])) \<and>
   do_convert ctx_xy (Instruction ZExt [arg_x] (IntegerTy 64)) =
     Inr (Some (Node ''zx'' [IntegerNode 32, VariableNode ''x''])) \<and>
   do_convert ctx_xy (Instruction Trunc [arg_x] (IntegerTy 8)) =
     Inr (Some (Node ''extract'' [IntegerNode 7, IntegerNode 0, VariableNode ''x'']))"
proof -
  have t: "getType arg_x = Inr (IntegerTy 32)"
    by (simp add: arg_x_def)
  show ?thesis
    using width_changing [where w = 32 and W = 64 and rest = "[]", OF convert_arg_x]
      width_changing [where w = 32 and W = 8 and rest = "[]", OF convert_arg_x] t
    by (simp add: ctx_xy_sel node_simps)
qed

section \<open>Calls\<close>

text \<open>
  What the code does with a direct call. When the callee's name contains the marker
  \<^verbatim>\<open>llvm.bswap.i\<close>, the call is translated to the \<open>bswap\<close> node over the translation of
  its first argument; a direct call of any other function raises the failure "LLVM call
  not supported", whatever its arguments.
\<close>

lemma call_whitelist:
  "(sublist bswap_marker callee \<longrightarrow>
      do_convert actx (CallInst (Some callee) (a # rest) ty) =
        (case do_convert actx a of Inl e \<Rightarrow> Inl e | Inr n \<Rightarrow> bswap actx n)) \<and>
   (\<not> sublist bswap_marker callee \<longrightarrow>
      do_convert actx (CallInst (Some callee) args ty) = call_not_supported)"
  using find_str_iff [of callee "''llvm.bswap.i''"]
  by (auto simp: bswap_marker_def call_not_supported_def throw_def bindE_def split: sum.splits)

text \<open>The two cases at a call of \<^verbatim>\<open>llvm.bswap.i32\<close> and at a call of \<^verbatim>\<open>llvm.ctpop.i32\<close>.\<close>

lemma call_whitelist_examples:
  "sublist bswap_marker ''llvm.bswap.i32'' \<and>
   do_convert ctx_xy (CallInst (Some ''llvm.bswap.i32'') [arg_x] (IntegerTy 32)) =
     Inr (Some (Node ''bswap'' [VariableNode ''x''])) \<and>
   \<not> sublist bswap_marker ''llvm.ctpop.i32'' \<and>
   do_convert ctx_xy (CallInst (Some ''llvm.ctpop.i32'') [arg_x] (IntegerTy 32)) =
     call_not_supported"
proof -
  have y: "sublist bswap_marker ''llvm.bswap.i32''"
    by (simp add: bswap_marker_def sublist_code)
  have n: "\<not> sublist bswap_marker ''llvm.ctpop.i32''"
    by (simp add: bswap_marker_def sublist_code)
  have "do_convert ctx_xy (CallInst (Some ''llvm.bswap.i32'') [arg_x] (IntegerTy 32)) =
      bswap ctx_xy (Some (VariableNode ''x''))"
    using y call_whitelist [where callee = "''llvm.bswap.i32''" and actx = ctx_xy and a = arg_x
        and rest = "[]" and ty = "IntegerTy 32"]
    by simp
  moreover have "do_convert ctx_xy (CallInst (Some ''llvm.ctpop.i32'') [arg_x] (IntegerTy 32)) =
      call_not_supported"
    using n call_whitelist [where callee = "''llvm.ctpop.i32''" and actx = ctx_xy
        and args = "[arg_x]" and ty = "IntegerTy 32"]
    by simp
  ultimately show ?thesis
    using y n by (simp add: ctx_xy_sel node_simps)
qed

text \<open>
  An indirect call has no called function: the code reads the name through the null
  pointer, in any context and whatever the arguments. Nothing is raised and nothing is
  returned.
\<close>

lemma call_indirect:
  "do_convert actx (CallInst None args ty) = Inl (Crash ''null dereference'')"
  by (simp add: getCalledFunction_getName_def)

text \<open>
  Claim C6. The claim says that a call to any callee other than the byte-swap intrinsic
  raises the translation failure "call not supported". The code does not on an indirect
  call, whose callee is not the whitelisted one: at the call of \<open>x\<close> through a function
  pointer \<^verbatim>\<open>getCalledFunction()\<close> is null, \<^verbatim>\<open>do_convert\<close> dereferences it unchecked, and the
  outcome is the crash, not the failure.
\<close>

theorem call_indirect_dereferences_null:
  "do_convert ctx_xy indirect_call = Inl (Crash ''null dereference'') \<and>
   do_convert ctx_xy indirect_call \<noteq>
     Inl (AstLifting ''LLVMToTriton::do_convert(): LLVM call not supported'')"
  by (simp add: indirect_call_def getCalledFunction_getName_def)

section \<open>The entry point and the return\<close>

text \<open>
  Claim C7. When the module has no function of the given name, \<^verbatim>\<open>convert\<close> raises the
  failure "llvm::Module doesn't contain the given function name". When it has one, whose
  entry block ends in a return instruction with an operand, \<^verbatim>\<open>convert\<close> returns the
  translation of that operand, unchanged.
\<close>

theorem convert_root:
  "((\<forall>f \<in> set llvmModule. getName f \<noteq> fname) \<longrightarrow>
      convert actx llvmModule fname = function_not_found) \<and>
   (getFunction llvmModule fname = Some f \<and> blocks f = bb # bbs \<and>
    instructions bb = insts @ [Instruction Ret (v # vs) ty] \<longrightarrow>
      convert actx llvmModule fname = do_convert actx v)"
proof (intro conjI impI)
  assume "\<forall>f \<in> set llvmModule. getName f \<noteq> fname"
  then have "getFunction llvmModule fname = None"
    by (simp add: getFunction_def find_None_iff)
  then show "convert actx llvmModule fname = function_not_found"
    by (simp add: convert_def function_not_found_def throw_def)
next
  assume h: "getFunction llvmModule fname = Some f \<and> blocks f = bb # bbs \<and>
    instructions bb = insts @ [Instruction Ret (v # vs) ty]"
  then have "getEntryBlock f = Inr bb"
    by (simp add: getEntryBlock_def)
  moreover from h have "getTerminator bb = Instruction Ret (v # vs) ty"
    by (simp add: getTerminator_def)
  ultimately show "convert actx llvmModule fname = do_convert actx v"
    using h by (simp add: convert_def)
qed

text \<open>
  Claim C7 at the module with the single function \<open>f\<close>, asked for \<open>g\<close> and for \<open>f\<close>.
\<close>

theorem convert_root_witness:
  "convert ctx_xy module_f ''g'' = function_not_found \<and>
   convert ctx_xy module_f ''f'' = Inr (Some (VariableNode ''x''))"
proof -
  have "\<forall>f \<in> set module_f. getName f \<noteq> ''g''"
    by (simp add: module_f_def)
  then have "convert ctx_xy module_f ''g'' = function_not_found"
    using convert_root [where llvmModule = module_f and fname = "''g''" and actx = ctx_xy]
    by simp
  moreover have "getFunction module_f ''f'' =
        Some (Function ''f'' [BasicBlock [Instruction Ret [arg_x] OtherTy]]) \<and>
      blocks (Function ''f'' [BasicBlock [Instruction Ret [arg_x] OtherTy]]) =
        BasicBlock [Instruction Ret [arg_x] OtherTy] # [] \<and>
      instructions (BasicBlock [Instruction Ret [arg_x] OtherTy]) =
        [] @ [Instruction Ret (arg_x # []) OtherTy]"
    by (simp add: module_f_def getFunction_def)
  then have "convert ctx_xy module_f ''f'' = do_convert ctx_xy arg_x"
    using convert_root [where llvmModule = module_f and fname = "''f''" and actx = ctx_xy
        and f = "Function ''f'' [BasicBlock [Instruction Ret [arg_x] OtherTy]]"
        and bb = "BasicBlock [Instruction Ret [arg_x] OtherTy]" and bbs = "[]"
        and insts = "[]" and v = arg_x and vs = "[]" and ty = OtherTy]
    by blast
  ultimately show ?thesis by simp
qed

section \<open>Unsupported values\<close>

text \<open>
  Claim C8. A value that is not an argument, not a constant integer and not an instruction
  with a supported opcode makes \<^verbatim>\<open>do_convert\<close> raise the failure "LLVM instruction not
  supported": the result is the failure, never a node.
\<close>

theorem unsupported_value:
  assumes "\<not> isa_Argument v" and "\<not> isa_ConstantInt v" and "\<not> supported_instruction v"
  shows "do_convert actx v = not_supported"
proof (cases v)
  case (Instruction opc ops ty)
  then show ?thesis using assms(3)
    by (cases opc)
       (simp_all add: supported_instruction_def supported_opcodes_def not_supported_def throw_def)
qed (use assms in \<open>simp_all add: supported_instruction_def supported_opcodes_def not_supported_def throw_def\<close>)

text \<open>
  Claim C8 at a load instruction, at a value that is none of the three shapes, and at the
  null pointer; the failure of an operand is the failure of the instruction above it.
\<close>

theorem unsupported_value_witness:
  "do_convert ctx_xy load_i32 = not_supported \<and>
   do_convert ctx_xy (OtherValue OtherTy) = not_supported \<and>
   do_convert ctx_xy NullValue = not_supported \<and>
   do_convert ctx_xy (Instruction Add [arg_x, load_i32] (IntegerTy 32)) = not_supported"
proof -
  have "\<not> isa_Argument load_i32 \<and> \<not> isa_ConstantInt load_i32 \<and> \<not> supported_instruction load_i32"
    by (simp add: load_i32_def supported_instruction_def supported_opcodes_def)
  then have a: "do_convert ctx_xy load_i32 = not_supported"
    using unsupported_value [of load_i32 ctx_xy] by simp
  have "\<not> supported_instruction (OtherValue OtherTy)" "\<not> supported_instruction NullValue"
    by (simp_all add: supported_instruction_def)
  then have "do_convert ctx_xy (OtherValue OtherTy) = not_supported"
    and "do_convert ctx_xy NullValue = not_supported"
    using unsupported_value [of "OtherValue OtherTy" ctx_xy] unsupported_value [of NullValue ctx_xy]
    by simp_all
  with a show ?thesis
    by (simp add: not_supported_def)
qed

section \<open>Binary arithmetic and shifts\<close>

text \<open>
  Claim C9. For each of the ten arithmetic and shift opcodes, the instruction translates
  operand 0, then operand 1 (the failure of operand 0 comes first), and returns the
  matching binary builder applied to the two translations, in every case.
\<close>

theorem binary_arith:
  assumes "arith_builder opc = Some build"
  shows "do_convert actx (Instruction opc (a # b # rest) ty) =
           (case do_convert actx a of
              Inl e \<Rightarrow> Inl e
            | Inr LHS \<Rightarrow>
                (case do_convert actx b of
                   Inl e \<Rightarrow> Inl e
                 | Inr RHS \<Rightarrow> build actx LHS RHS))"
  using assms
  by (cases opc) (auto simp: arith_builder_def bindE_def split: sum.splits)

text \<open>
  Claim C9 at a subtraction of two translatable operands, and at one whose operand 0 is
  untranslatable and whose operand 1 is null: the failure is that of operand 0.
\<close>

theorem binary_arith_witness:
  "(arith_builder Sub :: node builder2 option) = Some bvsub \<and>
   do_convert ctx_xy (Instruction Sub [arg_x, const_5] (IntegerTy 32)) =
     Inr (Some (Node ''bvsub'' [VariableNode ''x'', Node ''bv'' [IntegerNode 5, IntegerNode 32]])) \<and>
   do_convert ctx_xy (Instruction Sub [load_i32, NullValue] (IntegerTy 32)) = not_supported"
proof -
  have h: "(arith_builder Sub :: node builder2 option) = Some bvsub"
    by (simp add: arith_builder_def)
  show ?thesis
    using h binary_arith [OF h, of ctx_xy arg_x const_5 "[]" "IntegerTy 32"]
      binary_arith [OF h, of ctx_xy load_i32 NullValue "[]" "IntegerTy 32"]
    by (simp add: not_supported_def ctx_xy_sel node_simps)
qed

section \<open>Calls with more arguments\<close>

text \<open>
  Claim C10, as stated, fails: a whitelisted call with two arguments whose first argument
  is a load does not succeed, it raises the failure of the load.
\<close>

theorem call_extra_arguments_counterexample:
  "sublist bswap_marker ''llvm.bswap.i32'' \<and>
   do_convert ctx_xy (CallInst (Some ''llvm.bswap.i32'') [load_i32, arg_x] (IntegerTy 32)) =
     Inl (AstLifting ''LLVMToTriton::do_convert(): LLVM instruction not supported'')"
  by (simp add: bswap_marker_def sublist_code find_str_def not_supported_def)

text \<open>
  Claim C10, amended. The translation of a whitelisted call with a first argument does not
  depend on the arguments after the first, nor on the call's type: they are never
  translated. It succeeds exactly when the translation of the first argument and the
  \<open>bswap\<close> builder on it succeed.
\<close>

theorem call_extra_arguments:
  assumes "sublist bswap_marker callee"
  shows "do_convert actx (CallInst (Some callee) (a # rest) ty) =
           do_convert actx (CallInst (Some callee) (a # rest') ty') \<and>
         ((\<exists>n. do_convert actx (CallInst (Some callee) (a # rest) ty) = Inr n) \<longleftrightarrow>
          (\<exists>m n. do_convert actx a = Inr m \<and> bswap actx m = Inr n))"
  using assms find_str_iff [of callee "''llvm.bswap.i''"]
  by (auto simp: bswap_marker_def bindE_def split: sum.splits)

text \<open>
  The amended claim C10 at a call whose second and third arguments are untranslatable.
\<close>

theorem call_extra_arguments_witness:
  "sublist bswap_marker ''llvm.bswap.i32'' \<and>
   do_convert ctx_xy
       (CallInst (Some ''llvm.bswap.i32'') [arg_x, load_i32, NullValue] (IntegerTy 32)) =
     Inr (Some (Node ''bswap'' [VariableNode ''x'']))"
proof -
  have y: "sublist bswap_marker ''llvm.bswap.i32''"
    by (simp add: bswap_marker_def sublist_code)
  have "do_convert ctx_xy (CallInst (Some ''llvm.bswap.i32'') [arg_x] (IntegerTy 32)) =
      Inr (Some (Node ''bswap'' [VariableNode ''x'']))"
    by (simp add: find_str_def bindE_def ctx_xy_sel node_simps)
  then show ?thesis
    using y call_extra_arguments [OF y, of ctx_xy arg_x "[load_i32, NullValue]" "IntegerTy 32" "[]"
        "IntegerTy 32"]
    by simp
qed

end
